theory Spec2Isabelle
  imports Complex_Main "HOL-Library.Sublist" "HOL-Library.Word"
begin

section \<open>Media processor: a shallow embedding of \<open>r2-client.js\<close> and \<open>server.js\<close>\<close>

text \<open>
  The service keeps no data of its own: everything it does is a sequence of calls to
  collaborators (the clock, the random generator, the file system, sharp, ffmpeg and
  the R2 bucket). The collaborators are a record of functions (\<open>env\<close>); what they
  mutate is a record (\<open>world\<close>) passed through every call. A JavaScript exception is
  the left injection of a sum, carrying the message of the \<open>Error\<close>.
\<close>

subsection \<open>Strings and numbers of the host language\<close>

text \<open>\<open>String.prototype.split\<close> with a one-character separator: never the empty list.\<close>

fun split_on :: "char \<Rightarrow> string \<Rightarrow> string list" where
  "split_on c [] = [[]]"
| "split_on c (x # xs) =
     (if x = c then [] # split_on c xs
      else (case split_on c xs of
              [] \<Rightarrow> [[x]]
            | s # ss \<Rightarrow> (x # s) # ss))"

text \<open>\<open>filename.split('.').pop()\<close>: the last piece of the split.\<close>

definition split_pop :: "string \<Rightarrow> string" where
  "split_pop filename = last (split_on CHR ''.'' filename)"

text \<open>A non-negative integer inside a template literal: its decimal digits.\<close>

definition digit_char :: "nat \<Rightarrow> char" where
  "digit_char d = ''0123456789'' ! d"

fun show_nat :: "nat \<Rightarrow> string" where
  "show_nat n = (if n < 10 then [digit_char n] else show_nat (n div 10) @ [digit_char (n mod 10)])"

declare show_nat.simps [simp del]

subsection \<open>Key namer (\<open>R2Service.generateKey\<close>)\<close>

text \<open>
  \<open>rnd\<close> is the value of \<open>Math.random().toString(36).substr(2, 9)\<close>; the caller
  draws it. \<open>userId\<close> is the text the template literal renders for the owner id.
\<close>

definition generateKey :: "string \<Rightarrow> string \<Rightarrow> string \<Rightarrow> nat \<Rightarrow> string \<Rightarrow> string" where
  "generateKey type userId filename timestamp rnd =
     (let extension = split_pop filename;
          uniqueId = show_nat timestamp @ ''-'' @ rnd
      in if type = ''avatar'' then ''avatars/user-'' @ userId @ ''/'' @ uniqueId @ ''.'' @ extension
         else if type = ''post'' then ''posts/post-'' @ userId @ ''/'' @ uniqueId @ ''.'' @ extension
         else if type = ''album'' then ''albums/album-'' @ userId @ ''/'' @ uniqueId @ ''.'' @ extension
         else if type = ''video'' then ''videos/post-'' @ userId @ ''/'' @ uniqueId @ ''.'' @ extension
         else if type = ''processed'' then ''processed/user-'' @ userId @ ''/'' @ uniqueId @ ''.'' @ extension
         else if type = ''temp'' then ''temp/uploads/'' @ uniqueId @ ''.'' @ extension
         else ''uploads/'' @ type @ ''/'' @ uniqueId @ ''.'' @ extension)"


subsection \<open>Numbers and values of the host language\<close>

text \<open>
  A JavaScript number, as far as the service handles one: not-a-number, the two
  infinities, or a finite value. The finite value is the mathematical one; rounding to
  the nearest double and the sign of zero are outside the model.
\<close>

datatype jsnum = NaN | PosInf | NegInf | Fin rat

datatype jsval = JNull | JBool bool | JNum jsnum | JStr string

text \<open>Truthiness, as \<open>if (v)\<close>, \<open>v && w\<close> and \<open>v ? a : b\<close> test it.\<close>

fun truthy :: "jsval \<Rightarrow> bool" where
  "truthy JNull = False"
| "truthy (JBool b) = b"
| "truthy (JNum NaN) = False"
| "truthy (JNum (Fin q)) = (q \<noteq> 0)"
| "truthy (JNum _) = True"
| "truthy (JStr s) = (s \<noteq> [])"

definition is_space :: "char \<Rightarrow> bool" where
  "is_space c = (c \<in> set [CHR '' '', CHR 0x09, CHR 0x0A, CHR 0x0B, CHR 0x0C, CHR 0x0D])"

definition is_digit :: "char \<Rightarrow> bool" where
  "is_digit c = (c \<in> set ''0123456789'')"

text \<open>The value of a decimal digit: its place among the ten digits.\<close>

definition digit_val :: "char \<Rightarrow> nat" where
  "digit_val c = length (takeWhile (\<lambda>d. d \<noteq> c) ''0123456789'')"

definition digits_val :: "string \<Rightarrow> nat" where
  "digits_val ds = foldl (\<lambda>a c. 10 * a + digit_val c) 0 ds"

text \<open>The \<open>ExponentPart\<close> at the head of the rest, 0 when there is none.\<close>

definition exponent_part :: "string \<Rightarrow> int" where
  "exponent_part r =
     (case r of
        [] \<Rightarrow> 0
      | c # r1 \<Rightarrow>
          if c = CHR ''e'' \<or> c = CHR ''E'' then
            (case r1 of
               [] \<Rightarrow> 0
             | s # r2 \<Rightarrow>
                 if s = CHR ''-'' then
                   (if takeWhile is_digit r2 = [] then 0 else - int (digits_val (takeWhile is_digit r2)))
                 else if s = CHR ''+'' then
                   (if takeWhile is_digit r2 = [] then 0 else int (digits_val (takeWhile is_digit r2)))
                 else
                   (if takeWhile is_digit r1 = [] then 0 else int (digits_val (takeWhile is_digit r1))))
          else 0)"

text \<open>
  The global \<open>parseFloat\<close> (ECMAScript): leading white space is skipped, the longest
  prefix that is a \<open>StrDecimalLiteral\<close> is read, whatever follows is ignored, and
  the result is \<open>NaN\<close> when there is no such prefix.
\<close>

definition parseFloat :: "string \<Rightarrow> jsnum" where
  "parseFloat s =
     (let t = dropWhile is_space s;
          neg = (t \<noteq> [] \<and> hd t = CHR ''-'');
          u = (if t \<noteq> [] \<and> (hd t = CHR ''-'' \<or> hd t = CHR ''+'') then tl t else t)
      in if prefix ''Infinity'' u then (if neg then NegInf else PosInf)
         else
           (let ip = takeWhile is_digit u;
                r1 = dropWhile is_digit u;
                dot = (r1 \<noteq> [] \<and> hd r1 = CHR ''.'');
                fp = (if dot then takeWhile is_digit (tl r1) else []);
                r2 = (if dot then dropWhile is_digit (tl r1) else r1)
            in if ip = [] \<and> fp = [] then NaN
               else
                 (let m = (of_nat (digits_val ip) :: rat) + of_nat (digits_val fp) / 10 ^ length fp;
                      ex = exponent_part r2;
                      v = (if 0 \<le> ex then m * 10 ^ nat ex else m / 10 ^ nat (- ex))
                  in Fin (if neg then - v else v))))"

subsection \<open>Data\<close>

type_synonym bytes = "8 word list"

text \<open>A file as \<open>multer\<close> hands it over (memory storage).\<close>

record upload =
  originalname :: string
  mimetype :: string
  buffer :: bytes

text \<open>
  The request after the authentication and upload middleware: \<open>req.user.userId\<close> (as
  text), \<open>req.file\<close>, \<open>req.files\<close> and the fields of \<open>req.body\<close>, which a
  multipart form delivers as strings (\<open>None\<close> is \<open>undefined\<close>).
\<close>

record request =
  user_id :: string
  req_file :: "upload option"
  req_files :: "upload list"
  body_quality :: "string option"
  body_format :: "string option"
  body_resize :: "string option"
  body_generateThumbnail :: "string option"

text \<open>The \<open>PutObjectCommand\<close> input (bucket and cache control are constants).\<close>

record put_object =
  po_key :: string
  po_body :: bytes
  po_contentType :: string
  po_metadata :: "(string \<times> jsval) list"

record put_reply =
  reply_ETag :: "string option"
  reply_Metadata :: "(string \<times> string) list option"

text \<open>What \<open>uploadFile\<close> returns.\<close>

record upload_result =
  up_success :: bool
  up_key :: string
  up_url :: string
  up_etag :: "string option"
  up_metadata :: "(string \<times> string) list option"

text \<open>\<open>{ size: size, ...result }\<close>\<close>

record image_row =
  row_size :: string
  row_result :: upload_result

record image_data =
  im_original :: "image_row option"
  im_thumbnail :: "image_row option"
  im_medium :: "image_row option"
  im_large :: "image_row option"

record video_data =
  vd_video :: upload_result
  vd_thumbnail :: "upload_result option"
  vd_duration :: "jsnum option"
  vd_format :: "string option"
  vd_quality :: "string option"

text \<open>The arguments of one \<open>.resize(width, height, { fit, position, withoutEnlargement })\<close>.\<close>

record resize_call =
  rc_width :: "jsnum option"
  rc_height :: "jsnum option"
  rc_fit :: string
  rc_position :: "string option"
  rc_withoutEnlargement :: "bool option"

text \<open>The \<open>resize\<close> override of a profile, after \<open>JSON.parse\<close>.\<close>

record resize_spec =
  rs_width :: "jsnum option"
  rs_height :: "jsnum option"
  rs_fit :: "string option"

record image_options =
  io_quality :: "jsnum option"
  io_format :: "string option"
  io_resize :: "resize_spec option"

record video_options =
  vo_quality :: "string option"
  vo_format :: "string option"
  vo_generateThumbnail :: "jsval option"
  vo_thumbnailPath :: "string option"

record screenshots =
  ss_timestamps :: "string list"
  ss_filename :: string
  ss_folder :: string
  ss_size :: string

text \<open>The fluent-ffmpeg command as \<open>processVideo\<close> configures it before \<open>run()\<close>.\<close>

record ffmpeg_command =
  ff_input :: string
  ff_videoCodec :: string
  ff_videoBitrate :: string
  ff_audioCodec :: string
  ff_audioBitrate :: string
  ff_screenshots :: "screenshots option"
  ff_output :: string

text \<open>
  What a run of ffmpeg does: the files it writes, the \<open>duration\<close> of the
  \<open>codecData\<close> event as text (\<open>None\<close>: the event never fires), and the error of
  the \<open>error\<close> event (\<open>None\<close>: the \<open>end\<close> event fires).
\<close>

record ffmpeg_outcome =
  ff_written :: "(string \<times> bytes) list"
  ff_codecData :: "string option"
  ff_error :: "string option"

record video_result =
  pv_duration :: "jsnum option"
  pv_thumbnail :: "string option"

subsection \<open>The collaborators and what they change\<close>

record world =
  clock_reads :: nat
  random_draws :: nat
  fs_files :: "string \<rightharpoonup> bytes"
  objects :: "put_object list"

record env =
  date_now :: "nat \<Rightarrow> nat"
  random36 :: "nat \<Rightarrow> string"
  iso_string :: "nat \<Rightarrow> string"
  dir_name :: string
  path_join :: "string \<Rightarrow> string \<Rightarrow> string"
  path_extname :: "string \<Rightarrow> string"
  path_basename :: "string \<Rightarrow> string"
  path_dirname :: "string \<Rightarrow> string"
  parse_int :: "string \<Rightarrow> jsnum"
  json_parse :: "string \<Rightarrow> string + resize_spec option"
  sharp_new :: "bytes \<Rightarrow> string option"
  sharp_resize :: "resize_call \<Rightarrow> string option"
  sharp_jpeg :: "bytes \<Rightarrow> resize_call \<Rightarrow> jsnum \<Rightarrow> string + bytes"
  ffmpeg_run :: "ffmpeg_command \<Rightarrow> (string \<rightharpoonup> bytes) \<Rightarrow> ffmpeg_outcome"
  r2_send :: "put_object \<Rightarrow> string + put_reply"
  public_url :: "string option"
  bucket_name :: string
  account_id :: string

text \<open>A call that may throw: the message of the error, or the value; and the world after it.\<close>

type_synonym 'a outcome = "(string + 'a) \<times> world"

definition bindT :: "'a outcome \<Rightarrow> ('a \<Rightarrow> world \<Rightarrow> 'b outcome) \<Rightarrow> 'b outcome" where
  "bindT r f = (case r of (Inl e, w) \<Rightarrow> (Inl e, w) | (Inr x, w) \<Rightarrow> f x w)"

text \<open>\<open>Date.now()\<close> and \<open>new Date()\<close>: the next reading of the clock.\<close>

definition now :: "env \<Rightarrow> world \<Rightarrow> nat \<times> world" where
  "now e w = (date_now e (clock_reads w), w\<lparr>clock_reads := Suc (clock_reads w)\<rparr>)"

text \<open>\<open>Math.random().toString(36).substr(2, 9)\<close>: the next draw.\<close>

definition draw :: "env \<Rightarrow> world \<Rightarrow> string \<times> world" where
  "draw e w = (random36 e (random_draws w), w\<lparr>random_draws := Suc (random_draws w)\<rparr>)"

definition writeFile :: "string \<Rightarrow> bytes \<Rightarrow> world \<Rightarrow> world" where
  "writeFile p b w = w\<lparr>fs_files := (fs_files w)(p \<mapsto> b)\<rparr>"

definition readFile :: "string \<Rightarrow> world \<Rightarrow> bytes outcome" where
  "readFile p w =
     (case fs_files w p of
        None \<Rightarrow> (Inl (''ENOENT: no such file or directory, open '' @ p), w)
      | Some b \<Rightarrow> (Inr b, w))"

definition unlink :: "string \<Rightarrow> world \<Rightarrow> unit outcome" where
  "unlink p w =
     (case fs_files w p of
        None \<Rightarrow> (Inl (''ENOENT: no such file or directory, unlink '' @ p), w)
      | Some b \<Rightarrow> (Inr (), w\<lparr>fs_files := (fs_files w)(p := None)\<rparr>))"

text \<open>\<open>cleanupTempFiles\<close>: each \<open>unlink\<close> in its own \<open>try\<close>; a failure is only logged.\<close>

fun cleanupTempFiles :: "string list \<Rightarrow> world \<Rightarrow> world" where
  "cleanupTempFiles [] w = w"
| "cleanupTempFiles (filePath # filePaths) w =
     (case unlink filePath w of
        (Inl err, w') \<Rightarrow> cleanupTempFiles filePaths w'
      | (Inr u, w') \<Rightarrow> cleanupTempFiles filePaths w')"

subsection \<open>Blob store adapter (\<open>R2Service\<close>)\<close>

definition getPublicUrl :: "env \<Rightarrow> string \<Rightarrow> string" where
  "getPublicUrl e key =
     (if truthy (case public_url e of None \<Rightarrow> JNull | Some u \<Rightarrow> JStr u)
      then the (public_url e) @ ''/'' @ key
      else ''https://'' @ bucket_name e @ ''.'' @ account_id e @ ''.r2.cloudflarestorage.com/'' @ key)"

definition uploadFile ::
  "env \<Rightarrow> string \<Rightarrow> bytes \<Rightarrow> string \<Rightarrow> (string \<times> jsval) list \<Rightarrow> world \<Rightarrow> upload_result outcome" where
  "uploadFile e key fileBuffer contentType metadata w =
     (let command = \<lparr>po_key = key, po_body = fileBuffer, po_contentType = contentType,
                      po_metadata = metadata\<rparr>
      in case r2_send e command of
           Inl msg \<Rightarrow> (Inl (''Failed to upload file: '' @ msg), w)
         | Inr result \<Rightarrow>
             (Inr \<lparr>up_success = True, up_key = key, up_url = getPublicUrl e key,
                   up_etag = reply_ETag result, up_metadata = reply_Metadata result\<rparr>,
              w\<lparr>objects := objects w @ [command]\<rparr>))"

subsection \<open>Image renditions (\<open>processImage\<close>)\<close>

definition thumbnail_resize :: resize_call where
  "thumbnail_resize = \<lparr>rc_width = Some (Fin 300), rc_height = Some (Fin 300), rc_fit = ''cover'',
                       rc_position = Some ''center'', rc_withoutEnlargement = None\<rparr>"

definition medium_resize :: resize_call where
  "medium_resize = \<lparr>rc_width = Some (Fin 800), rc_height = None, rc_fit = ''inside'',
                    rc_position = None, rc_withoutEnlargement = Some True\<rparr>"

definition large_resize :: resize_call where
  "large_resize = \<lparr>rc_width = Some (Fin 1200), rc_height = None, rc_fit = ''inside'',
                   rc_position = None, rc_withoutEnlargement = Some True\<rparr>"

text \<open>The arguments of the \<open>resize\<close> call on \<open>sharpInstance\<close> (\<open>resize.fit || 'inside'\<close>).\<close>

definition override_resize :: "resize_spec \<Rightarrow> resize_call" where
  "override_resize r =
     \<lparr>rc_width = rs_width r, rc_height = rs_height r,
      rc_fit = (case rs_fit r of None \<Rightarrow> ''inside'' | Some f \<Rightarrow> if f = [] then ''inside'' else f),
      rc_position = None, rc_withoutEnlargement = Some True\<rparr>"

text \<open>
  \<open>processImage\<close>. \<open>sharpInstance\<close> is built, and given the resize override, but no
  output is ever taken from it: the three renditions each start again from
  \<open>sharp(buffer)\<close>. The result is the object's entries in insertion order.
\<close>

definition processImage :: "env \<Rightarrow> bytes \<Rightarrow> image_options \<Rightarrow> string + (string \<times> bytes) list" where
  "processImage e buf options =
     (let quality = (case io_quality options of None \<Rightarrow> Fin 85 | Some q \<Rightarrow> q);
          format = (case io_format options of None \<Rightarrow> ''jpeg'' | Some f \<Rightarrow> f)
      in case sharp_new e buf of
           Some err \<Rightarrow> Inl err
         | None \<Rightarrow>
            (case (case io_resize options of
                     None \<Rightarrow> None
                   | Some resize \<Rightarrow> sharp_resize e (override_resize resize)) of
               Some err \<Rightarrow> Inl err
             | None \<Rightarrow>
                (case sharp_jpeg e buf thumbnail_resize quality of
                   Inl err \<Rightarrow> Inl err
                 | Inr thumbnailBuffer \<Rightarrow>
                    (case sharp_jpeg e buf medium_resize quality of
                       Inl err \<Rightarrow> Inl err
                     | Inr mediumBuffer \<Rightarrow>
                        (case sharp_jpeg e buf large_resize quality of
                           Inl err \<Rightarrow> Inl err
                         | Inr largeBuffer \<Rightarrow>
                             Inr [(''original'', buf), (''thumbnail'', thumbnailBuffer),
                                  (''medium'', mediumBuffer), (''large'', largeBuffer)])))))"


subsection \<open>Uploading the renditions of an image\<close>

text \<open>
  The loop \<open>for (const [size, imageBuffer] of Object.entries(processedImages))\<close>, which
  \<open>/process-image\<close> and \<open>processImageFile\<close> both contain; they differ in the
  content type only. There is no \<open>try\<close> inside the loop: the first upload that throws
  ends it.
\<close>

fun upload_renditions ::
  "env \<Rightarrow> string \<Rightarrow> string \<Rightarrow> string \<Rightarrow> nat \<Rightarrow> (string \<times> bytes) list \<Rightarrow> world
     \<Rightarrow> image_row list outcome" where
  "upload_renditions e userId originalName contentType timestamp [] w = (Inr [], w)"
| "upload_renditions e userId originalName contentType timestamp ((size', imageBuffer) # rest) w =
     (let (rnd, w1) = draw e w;
          key = generateKey ''processed'' userId (size' @ ''_'' @ originalName) timestamp rnd;
          (t, w2) = now e w1
      in bindT (uploadFile e key imageBuffer contentType
                  [(''userId'', JStr userId), (''type'', JStr ''processed_image''),
                   (''size'', JStr size'), (''originalName'', JStr originalName),
                   (''processedAt'', JStr (iso_string e t))] w2)
           (\<lambda>result w3.
              bindT (upload_renditions e userId originalName contentType timestamp rest w3)
                (\<lambda>uploadResults w4.
                   (Inr (\<lparr>row_size = size', row_result = result\<rparr> # uploadResults), w4))))"

definition image_data_of :: "image_row list \<Rightarrow> image_data" where
  "image_data_of uploadResults =
     \<lparr>im_original = find (\<lambda>r. row_size r = ''original'') uploadResults,
      im_thumbnail = find (\<lambda>r. row_size r = ''thumbnail'') uploadResults,
      im_medium = find (\<lambda>r. row_size r = ''medium'') uploadResults,
      im_large = find (\<lambda>r. row_size r = ''large'') uploadResults\<rparr>"

text \<open>\<open>processImageFile\<close>: \<open>processImage(file.buffer)\<close> is called with no options.\<close>

definition processImageFile :: "env \<Rightarrow> upload \<Rightarrow> string \<Rightarrow> world \<Rightarrow> image_data outcome" where
  "processImageFile e file userId w =
     (case processImage e (buffer file) \<lparr>io_quality = None, io_format = None, io_resize = None\<rparr> of
        Inl err \<Rightarrow> (Inl err, w)
      | Inr processedImages \<Rightarrow>
          (let (timestamp, w1) = now e w
           in bindT (upload_renditions e userId (originalname file) ''image/jpeg'' timestamp
                       processedImages w1)
                (\<lambda>uploadResults w2. (Inr (image_data_of uploadResults), w2))))"

subsection \<open>Video transcode (\<open>processVideo\<close>)\<close>

definition apply_writes :: "(string \<times> bytes) list \<Rightarrow> world \<Rightarrow> world" where
  "apply_writes ws w = w\<lparr>fs_files := foldl (\<lambda>m (p, b). m(p \<mapsto> b)) (fs_files w) ws\<rparr>"

definition text_truthy :: "string option \<Rightarrow> bool" where
  "text_truthy s = truthy (case s of None \<Rightarrow> JNull | Some t \<Rightarrow> JStr t)"

text \<open>The command as configured from the options, defaults resolved.\<close>

definition video_command :: "env \<Rightarrow> string \<Rightarrow> string \<Rightarrow> video_options \<Rightarrow> ffmpeg_command" where
  "video_command e inputPath outputPath options =
     (let quality = (case vo_quality options of None \<Rightarrow> ''medium'' | Some q \<Rightarrow> q);
          format = (case vo_format options of None \<Rightarrow> ''mp4'' | Some f \<Rightarrow> f);
          generateThumbnail = (case vo_generateThumbnail options of None \<Rightarrow> JBool True | Some g \<Rightarrow> g);
          thumbnailPath = vo_thumbnailPath options
      in \<lparr>ff_input = inputPath,
          ff_videoCodec = ''libx264'',
          ff_videoBitrate =
            (if quality = ''low'' then ''500k''
             else if quality = ''medium'' then ''1000k''
             else if quality = ''high'' then ''2000k''
             else ''1000k''),
          ff_audioCodec = ''aac'',
          ff_audioBitrate = ''128k'',
          ff_screenshots =
            (if truthy generateThumbnail \<and> text_truthy thumbnailPath
             then Some \<lparr>ss_timestamps = [''50%''],
                        ss_filename = path_basename e (the thumbnailPath),
                        ss_folder = path_dirname e (the thumbnailPath),
                        ss_size = ''320x240''\<rparr>
             else None),
          ff_output = outputPath\<rparr>)"

text \<open>
  \<open>processVideo\<close>: the promise resolves on \<open>end\<close> with the duration that the
  \<open>codecData\<close> handler stored (\<open>parseFloat(data.duration)\<close>, \<open>null\<close> when the
  event did not fire), and rejects on \<open>error\<close>.
\<close>

definition processVideo ::
  "env \<Rightarrow> string \<Rightarrow> string \<Rightarrow> video_options \<Rightarrow> world \<Rightarrow> video_result outcome" where
  "processVideo e inputPath outputPath options w =
     (let generateThumbnail = (case vo_generateThumbnail options of None \<Rightarrow> JBool True | Some g \<Rightarrow> g);
          thumbnailPath = vo_thumbnailPath options;
          ran = ffmpeg_run e (video_command e inputPath outputPath options) (fs_files w);
          w1 = apply_writes (ff_written ran) w;
          duration = map_option parseFloat (ff_codecData ran)
      in case ff_error ran of
           Some err \<Rightarrow> (Inl err, w1)
         | None \<Rightarrow>
             (Inr \<lparr>pv_duration = duration,
                   pv_thumbnail = (if truthy generateThumbnail then thumbnailPath else None)\<rparr>, w1))"

definition duration_value :: "jsnum option \<Rightarrow> jsval" where
  "duration_value d = (case d of None \<Rightarrow> JNull | Some n \<Rightarrow> JNum n)"

subsection \<open>One video of a batch (\<open>processVideoFile\<close>)\<close>

definition processVideoFile :: "env \<Rightarrow> upload \<Rightarrow> string \<Rightarrow> world \<Rightarrow> video_data outcome" where
  "processVideoFile e file userId w =
     (let tempDir = path_join e (dir_name e) ''temp'';
          (t1, w1) = now e w;
          inputPath = path_join e tempDir
                        (''input_'' @ show_nat t1 @ ''.'' @ path_extname e (originalname file));
          (t2, w2) = now e w1;
          outputPath = path_join e tempDir (''output_'' @ show_nat t2 @ ''.mp4'');
          (t3, w3) = now e w2;
          thumbnailPath = path_join e tempDir (''thumbnail_'' @ show_nat t3 @ ''.jpg'');
          w4 = writeFile inputPath (buffer file) w3
      in bindT (processVideo e inputPath outputPath
                  \<lparr>vo_quality = None, vo_format = None, vo_generateThumbnail = Some (JBool True),
                   vo_thumbnailPath = Some thumbnailPath\<rparr> w4)
           (\<lambda>processedVideo w5.
              let (timestamp, w6) = now e w5;
                  (rnd, w7) = draw e w6;
                  videoKey = generateKey ''processed'' userId
                               (''processed_'' @ originalname file) timestamp rnd
              in bindT (readFile outputPath w7)
                   (\<lambda>videoBuffer w8.
                      let (t, w9) = now e w8
                      in bindT (uploadFile e videoKey videoBuffer ''video/mp4''
                                  [(''userId'', JStr userId), (''type'', JStr ''processed_video''),
                                   (''originalName'', JStr (originalname file)),
                                   (''duration'', duration_value (pv_duration processedVideo)),
                                   (''processedAt'', JStr (iso_string e t))] w9)
                           (\<lambda>videoResult w10.
                              let (rnd', w11) = draw e w10;
                                  thumbnailKey = generateKey ''processed'' userId
                                                   (''thumbnail_'' @ originalname file) timestamp rnd'
                              in bindT (readFile thumbnailPath w11)
                                   (\<lambda>thumbnailBuffer w12.
                                      let (t', w13) = now e w12
                                      in bindT (uploadFile e thumbnailKey thumbnailBuffer ''image/jpeg''
                                                  [(''userId'', JStr userId),
                                                   (''type'', JStr ''video_thumbnail''),
                                                   (''originalName'', JStr (originalname file)),
                                                   (''processedAt'', JStr (iso_string e t'))] w13)
                                           (\<lambda>thumbnailResult w14.
                                              (Inr \<lparr>vd_video = videoResult,
                                                     vd_thumbnail = Some thumbnailResult,
                                                     vd_duration = pv_duration processedVideo,
                                                     vd_format = None, vd_quality = None\<rparr>,
                                               cleanupTempFiles [inputPath, outputPath, thumbnailPath]
                                                 w14)))))))"

subsection \<open>The routes\<close>

text \<open>
  What a route answers: \<open>res.status(code).json({ error, message })\<close>, or
  \<open>res.json({ success: true, message, data })\<close>.
\<close>

datatype 'd response = Rejected nat string "string option" | Completed string 'd

definition respond :: "string \<Rightarrow> string \<Rightarrow> 'd outcome \<Rightarrow> 'd response \<times> world" where
  "respond failed done r =
     (case r of
        (Inl msg, w) \<Rightarrow> (Rejected 500 failed (Some msg), w)
      | (Inr d, w) \<Rightarrow> (Completed done d, w))"


text \<open>\<open>POST /process-video\<close>\<close>

definition process_video :: "env \<Rightarrow> request \<Rightarrow> world \<Rightarrow> video_data response \<times> world" where
  "process_video e req w =
     (case req_file req of
        None \<Rightarrow> (Rejected 400 ''No video file provided'' None, w)
      | Some file \<Rightarrow>
          respond ''Failed to process video'' ''Video processed successfully''
            (let userId = user_id req;
                 quality = (case body_quality req of None \<Rightarrow> ''medium'' | Some q \<Rightarrow> q);
                 format = (case body_format req of None \<Rightarrow> ''mp4'' | Some f \<Rightarrow> f);
                 generateThumbnail =
                   (case body_generateThumbnail req of None \<Rightarrow> JBool True | Some g \<Rightarrow> JStr g);
                 tempDir = path_join e (dir_name e) ''temp'';
                 (t1, w1) = now e w;
                 inputPath = path_join e tempDir
                               (''input_'' @ show_nat t1 @ ''.'' @ path_extname e (originalname file));
                 (t2, w2) = now e w1;
                 outputPath = path_join e tempDir (''output_'' @ show_nat t2 @ ''.'' @ format);
                 (t3, w3) = now e w2;
                 thumbnailPath = path_join e tempDir (''thumbnail_'' @ show_nat t3 @ ''.jpg'');
                 w4 = writeFile inputPath (buffer file) w3
             in bindT (processVideo e inputPath outputPath
                         \<lparr>vo_quality = Some quality, vo_format = Some format,
                          vo_generateThumbnail = Some generateThumbnail,
                          vo_thumbnailPath = Some thumbnailPath\<rparr> w4)
                  (\<lambda>processedVideo w5.
                     let (timestamp, w6) = now e w5;
                         (rnd, w7) = draw e w6;
                         videoKey = generateKey ''processed'' userId
                                      (''processed_'' @ originalname file) timestamp rnd
                     in bindT (readFile outputPath w7)
                          (\<lambda>videoBuffer w8.
                             let (t, w9) = now e w8
                             in bindT (uploadFile e videoKey videoBuffer (''video/'' @ format)
                                         [(''userId'', JStr userId), (''type'', JStr ''processed_video''),
                                          (''originalName'', JStr (originalname file)),
                                          (''duration'', duration_value (pv_duration processedVideo)),
                                          (''processedAt'', JStr (iso_string e t))] w9)
                                  (\<lambda>videoResult w10.
                                     bindT
                                       (if text_truthy (pv_thumbnail processedVideo)
                                           \<and> truthy generateThumbnail
                                        then
                                          (let (rnd', w11) = draw e w10;
                                               thumbnailKey = generateKey ''processed'' userId
                                                  (''thumbnail_'' @ originalname file) timestamp rnd'
                                           in bindT (readFile thumbnailPath w11)
                                                (\<lambda>thumbnailBuffer w12.
                                                   let (t', w13) = now e w12
                                                   in bindT (uploadFile e thumbnailKey thumbnailBuffer
                                                               ''image/jpeg''
                                                               [(''userId'', JStr userId),
                                                                (''type'', JStr ''video_thumbnail''),
                                                                (''originalName'', JStr (originalname file)),
                                                                (''processedAt'', JStr (iso_string e t'))]
                                                               w13)
                                                        (\<lambda>r w14. (Inr (Some r), w14))))
                                        else (Inr None, w10))
                                       (\<lambda>thumbnailResult w15.
                                          (Inr \<lparr>vd_video = videoResult,
                                                 vd_thumbnail = thumbnailResult,
                                                 vd_duration = pv_duration processedVideo,
                                                 vd_format = Some format, vd_quality = Some quality\<rparr>,
                                           cleanupTempFiles [inputPath, outputPath, thumbnailPath]
                                             w15)))))))"

subsection \<open>Batch (\<open>POST /batch-process\<close>)\<close>

definition isImage :: "string \<Rightarrow> bool" where
  "isImage mt = (mt \<in> set [''image/jpeg'', ''image/png'', ''image/gif'', ''image/webp''])"

definition isVideo :: "string \<Rightarrow> bool" where
  "isVideo mt =
     (mt \<in> set [''video/mp4'', ''video/webm'', ''video/ogg'', ''video/avi'', ''video/mov''])"

datatype file_data = ImageData image_data | VideoData video_data

record file_result =
  fr_originalName :: string
  fr_type :: "string option"
  fr_success :: bool
  fr_data :: "file_data option"
  fr_error :: "string option"


text \<open>The body of the loop over \<open>req.files\<close>: the \<open>try\<close> and its \<open>catch\<close>.\<close>

definition batch_file :: "env \<Rightarrow> string \<Rightarrow> upload \<Rightarrow> world \<Rightarrow> file_result \<times> world" where
  "batch_file e userId file w =
     (if isImage (mimetype file) then
        (case processImageFile e file userId w of
           (Inr result, w') \<Rightarrow>
             (\<lparr>fr_originalName = originalname file, fr_type = Some ''image'', fr_success = True,
               fr_data = Some (ImageData result), fr_error = None\<rparr>, w')
         | (Inl msg, w') \<Rightarrow>
             (\<lparr>fr_originalName = originalname file, fr_type = None, fr_success = False,
               fr_data = None, fr_error = Some msg\<rparr>, w'))
      else if isVideo (mimetype file) then
        (case processVideoFile e file userId w of
           (Inr result, w') \<Rightarrow>
             (\<lparr>fr_originalName = originalname file, fr_type = Some ''video'', fr_success = True,
               fr_data = Some (VideoData result), fr_error = None\<rparr>, w')
         | (Inl msg, w') \<Rightarrow>
             (\<lparr>fr_originalName = originalname file, fr_type = None, fr_success = False,
               fr_data = None, fr_error = Some msg\<rparr>, w'))
      else
        (\<lparr>fr_originalName = originalname file, fr_type = None, fr_success = False,
          fr_data = None, fr_error = Some ''Unsupported file type''\<rparr>, w))"




subsection \<open>A concrete set of collaborators\<close>

text \<open>
  Collaborators that always succeed, for evaluating the routes: the clock counts up
  from 1700, the draws are \<open>r0\<close>, \<open>r1\<close>, ..., ffmpeg writes its output and the
  requested screenshot and announces the duration \<open>00:02:00.50\<close>.
\<close>

definition env0 :: env where
  "env0 =
     \<lparr>date_now = (\<lambda>n. 1700 + n),
      random36 = (\<lambda>n. ''r'' @ show_nat n),
      iso_string = show_nat,
      dir_name = ''/app'',
      path_join = (\<lambda>a b. a @ ''/'' @ b),
      path_extname = (\<lambda>f. if CHR ''.'' \<in> set f then CHR ''.'' # split_pop f else []),
      path_basename = (\<lambda>p. last (split_on CHR ''/'' p)),
      path_dirname = (\<lambda>p. take (length p - Suc (length (last (split_on CHR ''/'' p)))) p),
      parse_int = (\<lambda>s. if takeWhile is_digit s = [] then NaN
                         else Fin (of_nat (digits_val (takeWhile is_digit s)))),
      json_parse = (\<lambda>s. Inr None),
      sharp_new = (\<lambda>b. None),
      sharp_resize = (\<lambda>c. None),
      sharp_jpeg = (\<lambda>b c q. Inr (0xFF # 0xD8 # b)),
      ffmpeg_run = (\<lambda>c fs.
         case fs (ff_input c) of
           None \<Rightarrow> \<lparr>ff_written = [], ff_codecData = None,
                     ff_error = Some (ff_input c @ '': No such file or directory'')\<rparr>
         | Some b \<Rightarrow>
             \<lparr>ff_written = (ff_output c, [0x66, 0x74]) #
                  (case ff_screenshots c of
                     None \<Rightarrow> []
                   | Some s \<Rightarrow> [(ss_folder s @ ''/'' @ ss_filename s, [0xFF, 0xD8])]),
               ff_codecData = Some ''00:02:00.50'',
               ff_error = None\<rparr>),
      r2_send = (\<lambda>obj. Inr \<lparr>reply_ETag = Some ''etag'', reply_Metadata = None\<rparr>),
      public_url = Some ''https://cdn.example'',
      bucket_name = ''vibecircles-media'',
      account_id = ''acct''\<rparr>"

text \<open>The same, but the transcode fails.\<close>

definition env_transcode_fails :: env where
  "env_transcode_fails =
     env0\<lparr>ffmpeg_run := (\<lambda>c fs. \<lparr>ff_written = [], ff_codecData = None,
                                  ff_error = Some ''ffmpeg exited with code 1''\<rparr>)\<rparr>"

text \<open>The same, but the bucket refuses every thumbnail.\<close>

definition env_thumbnail_refused :: env where
  "env_thumbnail_refused =
     env0\<lparr>r2_send := (\<lambda>obj.
        if map_of (po_metadata obj) ''size'' = Some (JStr ''thumbnail'')
           \<or> map_of (po_metadata obj) ''type'' = Some (JStr ''video_thumbnail'')
        then Inl ''AccessDenied''
        else Inr \<lparr>reply_ETag = Some ''etag'', reply_Metadata = None\<rparr>)\<rparr>"

definition world0 :: world where
  "world0 = \<lparr>clock_reads = 0, random_draws = 0, fs_files = Map.empty, objects = []\<rparr>"

definition photo :: upload where
  "photo = \<lparr>originalname = ''photo.png'', mimetype = ''image/png'', buffer = [0x89, 0x50]\<rparr>"

definition clip :: upload where
  "clip = \<lparr>originalname = ''clip.mp4'', mimetype = ''video/mp4'', buffer = [0x00, 0x18]\<rparr>"

definition memo :: upload where
  "memo = \<lparr>originalname = ''notes.txt'', mimetype = ''text/plain'', buffer = [0x68]\<rparr>"

definition request0 :: request where
  "request0 = \<lparr>user_id = ''7'', req_file = None, req_files = [], body_quality = None,
                body_format = None, body_resize = None, body_generateThumbnail = None\<rparr>"


subsection \<open>Names for the staging files\<close>





section \<open>Key namer\<close>

lemma split_on_not_Nil: "split_on c s \<noteq> []"
  by (induction s) (auto split: list.splits)

lemma split_on_no_separator: "c \<notin> set s \<Longrightarrow> split_on c s = [s]"
  by (induction s) (auto split: list.splits)

lemma generateKey_shape:
  "\<exists>pre. generateKey type userId filename timestamp rnd = pre @ ''.'' @ split_pop filename"
  unfolding generateKey_def Let_def
  by (auto intro: exI[of _ "_ @ _"])

text \<open>
  C6, as the code has it: \<open>generateKey\<close> has no failure branch (it is a total function
  of its arguments). A filename without a \<open>.\<close> is its own extension token: the whole
  filename ends the key, there is no \<open>unknown\<close> token. For every filename the key
  ends with \<open>.\<close> followed by the last dot-separated piece of the filename.
\<close>

theorem generateKey_extension:
  "(CHR ''.'' \<notin> set filename \<longrightarrow> split_pop filename = filename)
   \<and> suffix (''.'' @ split_pop filename) (generateKey type userId filename timestamp rnd)"
proof
  show "CHR ''.'' \<notin> set filename \<longrightarrow> split_pop filename = filename"
    by (simp add: split_pop_def split_on_no_separator)
next
  from generateKey_shape [of type userId filename timestamp rnd]
  show "suffix (''.'' @ split_pop filename) (generateKey type userId filename timestamp rnd)"
    unfolding suffix_def by blast
qed

text \<open>The theorem at the filename \<open>README\<close>.\<close>

theorem generateKey_extension_witness:
  "CHR ''.'' \<notin> set ''README'' \<and> split_pop ''README'' = ''README''
   \<and> suffix (''.'' @ split_pop ''README'')
        (generateKey ''processed'' ''7'' ''README'' 17 ''k3j9x2m1q'')"
proof -
  have h: "CHR ''.'' \<notin> set ''README''" by simp
  note t = generateKey_extension [of "''README''" "''processed''" "''7''" 17 "''k3j9x2m1q''"]
  from t h have a: "split_pop ''README'' = ''README''" by blast
  from t have b: "suffix (''.'' @ split_pop ''README'')
                    (generateKey ''processed'' ''7'' ''README'' 17 ''k3j9x2m1q'')"
    by blast
  from h a b show ?thesis by blast
qed

text \<open>
  The key of a filename without extension does not end with an \<open>unknown\<close> token: it
  ends with the filename.
\<close>

theorem generateKey_no_unknown_fallback:
  "CHR ''.'' \<notin> set ''README''
   \<and> generateKey ''processed'' ''7'' ''README'' 17 ''k3j9x2m1q''
       = ''processed/user-7/17-k3j9x2m1q.README''
   \<and> \<not> suffix ''.unknown'' (generateKey ''processed'' ''7'' ''README'' 17 ''k3j9x2m1q'')"
  by (simp add: generateKey_def split_pop_def show_nat.simps digit_char_def suffix_def)

text \<open>
  C10: two filenames with the same last dot-separated piece get the same key, when kind,
  owner id, timestamp and random disambiguator are the same. The key depends on the
  filename through that piece only.
\<close>

theorem generateKey_extension_only:
  "split_pop filename1 = split_pop filename2 \<Longrightarrow>
   generateKey type userId filename1 timestamp rnd = generateKey type userId filename2 timestamp rnd"
  by (simp add: generateKey_def)

text \<open>Two filenames that share the extension \<open>png\<close> and nothing else.\<close>

theorem generateKey_extension_only_witness:
  "split_pop ''holiday.in.rome.png'' = split_pop ''x.png''
   \<and> generateKey ''avatar'' ''7'' ''holiday.in.rome.png'' 17 ''k3j9x2m1q''
       = generateKey ''avatar'' ''7'' ''x.png'' 17 ''k3j9x2m1q''"
proof -
  have h: "split_pop ''holiday.in.rome.png'' = split_pop ''x.png''"
    by (simp add: split_pop_def)
  from h generateKey_extension_only [OF h, of "''avatar''" "''7''" 17 "''k3j9x2m1q''"]
  show ?thesis by blast
qed

section \<open>Image renditions\<close>

text \<open>A successful \<open>processImage\<close> took the three renditions and returns four entries.\<close>

lemma processImage_Inr:
  assumes "processImage e buf options = Inr res"
  obtains t m l where
    "sharp_jpeg e buf thumbnail_resize (case io_quality options of None \<Rightarrow> Fin 85 | Some q \<Rightarrow> q) = Inr t"
    "sharp_jpeg e buf medium_resize (case io_quality options of None \<Rightarrow> Fin 85 | Some q \<Rightarrow> q) = Inr m"
    "sharp_jpeg e buf large_resize (case io_quality options of None \<Rightarrow> Fin 85 | Some q \<Rightarrow> q) = Inr l"
    "res = [(''original'', buf), (''thumbnail'', t), (''medium'', m), (''large'', l)]"
  using assms unfolding processImage_def Let_def
  by (auto split: option.splits sum.splits)

lemma processImage_env0:
  "processImage env0 [0x89, 0x50]
     \<lparr>io_quality = Some (Fin 40), io_format = Some ''webp'', io_resize = r\<rparr>
   = Inr [(''original'', [0x89, 0x50]), (''thumbnail'', [0xFF, 0xD8, 0x89, 0x50]),
          (''medium'', [0xFF, 0xD8, 0x89, 0x50]), (''large'', [0xFF, 0xD8, 0x89, 0x50])]"
  by (simp add: processImage_def env0_def split: option.splits)

text \<open>
  C8: whatever the input bytes and the profile, the \<open>original\<close> entry that image
  processing returns holds exactly the input bytes; it is the first entry.
\<close>

theorem processImage_original_is_input:
  "processImage e buf options = Inr res \<Longrightarrow>
   map_of res ''original'' = Some buf \<and> hd res = (''original'', buf)"
  by (erule processImage_Inr) simp

text \<open>A two-byte input with quality 40, format webp and a resize override.\<close>

theorem processImage_original_is_input_witness:
  "processImage env0 [0x89, 0x50]
     \<lparr>io_quality = Some (Fin 40), io_format = Some ''webp'',
      io_resize = Some \<lparr>rs_width = Some (Fin 64), rs_height = None, rs_fit = None\<rparr>\<rparr>
     = Inr [(''original'', [0x89, 0x50]), (''thumbnail'', [0xFF, 0xD8, 0x89, 0x50]),
            (''medium'', [0xFF, 0xD8, 0x89, 0x50]), (''large'', [0xFF, 0xD8, 0x89, 0x50])]
   \<and> map_of [(''original'', [0x89, 0x50]), (''thumbnail'', [0xFF, 0xD8, 0x89, 0x50]),
             (''medium'', [0xFF, 0xD8, 0x89, 0x50]), (''large'', [0xFF, 0xD8, 0x89, 0x50 :: 8 word])]
        ''original'' = Some [0x89, 0x50]"
proof -
  note h = processImage_env0
             [of "Some \<lparr>rs_width = Some (Fin 64), rs_height = None, rs_fit = None\<rparr>"]
  from h processImage_original_is_input [OF h] show ?thesis by blast
qed

text \<open>
  C5: for every profile that image processing accepts (any quality, format and resize
  override), the renditions are \<open>original\<close>, \<open>thumbnail\<close>, \<open>medium\<close>, \<open>large\<close> in
  that order; the thumbnail is what sharp returns for the 300 by 300 cover-fit, centred
  resize of the input; and a different resize override, if accepted, changes no rendition.
\<close>

theorem processImage_fixed_renditions:
  assumes "processImage e buf options = Inr res"
  shows "map fst res = [''original'', ''thumbnail'', ''medium'', ''large'']
         \<and> sharp_jpeg e buf
             \<lparr>rc_width = Some (Fin 300), rc_height = Some (Fin 300), rc_fit = ''cover'',
              rc_position = Some ''center'', rc_withoutEnlargement = None\<rparr>
             (case io_quality options of None \<Rightarrow> Fin 85 | Some q \<Rightarrow> q) = Inr (snd (res ! 1))
         \<and> (\<forall>r res'. processImage e buf (options\<lparr>io_resize := r\<rparr>) = Inr res' \<longrightarrow> res' = res)"
proof -
  from assms obtain t m l where
    t: "sharp_jpeg e buf thumbnail_resize (case io_quality options of None \<Rightarrow> Fin 85 | Some q \<Rightarrow> q) = Inr t"
    and m: "sharp_jpeg e buf medium_resize (case io_quality options of None \<Rightarrow> Fin 85 | Some q \<Rightarrow> q) = Inr m"
    and l: "sharp_jpeg e buf large_resize (case io_quality options of None \<Rightarrow> Fin 85 | Some q \<Rightarrow> q) = Inr l"
    and res: "res = [(''original'', buf), (''thumbnail'', t), (''medium'', m), (''large'', l)]"
    by (rule processImage_Inr)
  have names: "map fst res = [''original'', ''thumbnail'', ''medium'', ''large'']"
    by (simp add: res)
  have thumb: "sharp_jpeg e buf
           \<lparr>rc_width = Some (Fin 300), rc_height = Some (Fin 300), rc_fit = ''cover'',
            rc_position = Some ''center'', rc_withoutEnlargement = None\<rparr>
           (case io_quality options of None \<Rightarrow> Fin 85 | Some q \<Rightarrow> q) = Inr (snd (res ! 1))"
    using t by (simp add: res thumbnail_resize_def)
  have same: "res' = res" if "processImage e buf (options\<lparr>io_resize := r\<rparr>) = Inr res'" for r res'
    using that t m l res by (auto elim!: processImage_Inr)
  from names thumb same show ?thesis by blast
qed

text \<open>Quality 40, format webp, with and without a resize override.\<close>

theorem processImage_fixed_renditions_witness:
  "processImage env0 [0x89, 0x50]
     \<lparr>io_quality = Some (Fin 40), io_format = Some ''webp'', io_resize = None\<rparr>
     = Inr [(''original'', [0x89, 0x50]), (''thumbnail'', [0xFF, 0xD8, 0x89, 0x50]),
            (''medium'', [0xFF, 0xD8, 0x89, 0x50]), (''large'', [0xFF, 0xD8, 0x89, 0x50])]
   \<and> map fst [(''original'', [0x89, 0x50]), (''thumbnail'', [0xFF, 0xD8, 0x89, 0x50]),
              (''medium'', [0xFF, 0xD8, 0x89, 0x50]), (''large'', [0xFF, 0xD8, 0x89, 0x50 :: 8 word])]
       = [''original'', ''thumbnail'', ''medium'', ''large'']
   \<and> sharp_jpeg env0 [0x89, 0x50]
        \<lparr>rc_width = Some (Fin 300), rc_height = Some (Fin 300), rc_fit = ''cover'',
         rc_position = Some ''center'', rc_withoutEnlargement = None\<rparr> (Fin 40)
       = Inr [0xFF, 0xD8, 0x89, 0x50]"
proof -
  note h = processImage_env0 [of None]
  from processImage_fixed_renditions [OF h]
  have "map fst [(''original'', [0x89, 0x50]), (''thumbnail'', [0xFF, 0xD8, 0x89, 0x50]),
              (''medium'', [0xFF, 0xD8, 0x89, 0x50]), (''large'', [0xFF, 0xD8, 0x89, 0x50 :: 8 word])]
       = [''original'', ''thumbnail'', ''medium'', ''large'']"
    and "sharp_jpeg env0 [0x89, 0x50]
        \<lparr>rc_width = Some (Fin 300), rc_height = Some (Fin 300), rc_fit = ''cover'',
         rc_position = Some ''center'', rc_withoutEnlargement = None\<rparr> (Fin 40)
       = Inr [0xFF, 0xD8, 0x89, 0x50]"
    by simp_all
  with h show ?thesis by blast
qed


section \<open>Evaluating the routes on concrete collaborators\<close>

text \<open>
  Rewrite rules that run the model on the concrete collaborators: the selectors of the
  three environments, the defining equations of the functions, and congruence rules that
  make the simplifier evaluate an argument before the function that consumes it.
\<close>

lemma bindT_weak_cong: "r = r' \<Longrightarrow> bindT r f = bindT r' f"
  by simp

lemma bindT_simps:
  "bindT (Inl err, w) f = (Inl err, w)"
  "bindT (Inr x, w) f = f x w"
  by (simp_all add: bindT_def)

lemma show_nat_numeral:
  "show_nat (numeral k) =
     (if (numeral k :: nat) < 10 then [digit_char (numeral k)]
      else show_nat (numeral k div 10) @ [digit_char (numeral k mod 10)])"
  "show_nat 0 = ''0''"
  "show_nat (Suc n) =
     (if Suc n < 10 then [digit_char (Suc n)]
      else show_nat (Suc n div 10) @ [digit_char (Suc n mod 10)])"
  by (simp_all add: show_nat.simps [of "numeral k"] show_nat.simps [of 0]
        show_nat.simps [of "Suc n"] digit_char_def)

lemma env0_sel:
  "date_now env0 n = 1700 + n"
  "random36 env0 n = ''r'' @ show_nat n"
  "iso_string env0 n = show_nat n"
  "dir_name env0 = ''/app''"
  "path_join env0 a b = a @ ''/'' @ b"
  "path_extname env0 f = (if CHR ''.'' \<in> set f then CHR ''.'' # split_pop f else [])"
  "path_basename env0 p = last (split_on CHR ''/'' p)"
  "path_dirname env0 p = take (length p - Suc (length (last (split_on CHR ''/'' p)))) p"
  "json_parse env0 s = Inr None"
  "sharp_new env0 buf = None"
  "sharp_resize env0 rc = None"
  "sharp_jpeg env0 buf rc q = Inr (0xFF # 0xD8 # buf)"
  "ffmpeg_run env0 c fs =
     (case fs (ff_input c) of
        None \<Rightarrow> \<lparr>ff_written = [], ff_codecData = None,
                  ff_error = Some (ff_input c @ '': No such file or directory'')\<rparr>
      | Some inp \<Rightarrow>
          \<lparr>ff_written = (ff_output c, [0x66, 0x74]) #
               (case ff_screenshots c of
                  None \<Rightarrow> []
                | Some s \<Rightarrow> [(ss_folder s @ ''/'' @ ss_filename s, [0xFF, 0xD8])]),
            ff_codecData = Some ''00:02:00.50'',
            ff_error = None\<rparr>)"
  "r2_send env0 obj = Inr \<lparr>reply_ETag = Some ''etag'', reply_Metadata = None\<rparr>"
  "public_url env0 = Some ''https://cdn.example''"
  "bucket_name env0 = ''vibecircles-media''"
  "account_id env0 = ''acct''"
  by (simp_all add: env0_def)

lemma env_transcode_fails_sel:
  "ffmpeg_run env_transcode_fails c fs =
     \<lparr>ff_written = [], ff_codecData = None, ff_error = Some ''ffmpeg exited with code 1''\<rparr>"
  "date_now env_transcode_fails = date_now env0"
    "random36 env_transcode_fails = random36 env0"
    "iso_string env_transcode_fails = iso_string env0"
    "dir_name env_transcode_fails = dir_name env0"
    "path_join env_transcode_fails = path_join env0"
    "path_extname env_transcode_fails = path_extname env0"
    "path_basename env_transcode_fails = path_basename env0"
    "path_dirname env_transcode_fails = path_dirname env0"
    "parse_int env_transcode_fails = parse_int env0"
    "json_parse env_transcode_fails = json_parse env0"
    "sharp_new env_transcode_fails = sharp_new env0"
    "sharp_resize env_transcode_fails = sharp_resize env0"
    "sharp_jpeg env_transcode_fails = sharp_jpeg env0"
    "r2_send env_transcode_fails = r2_send env0"
    "public_url env_transcode_fails = public_url env0"
    "bucket_name env_transcode_fails = bucket_name env0"
    "account_id env_transcode_fails = account_id env0"
  by (simp_all add: env_transcode_fails_def)

lemma env_thumbnail_refused_sel:
  "r2_send env_thumbnail_refused obj =
     (if map_of (po_metadata obj) ''size'' = Some (JStr ''thumbnail'')
         \<or> map_of (po_metadata obj) ''type'' = Some (JStr ''video_thumbnail'')
      then Inl ''AccessDenied''
      else Inr \<lparr>reply_ETag = Some ''etag'', reply_Metadata = None\<rparr>)"
  "date_now env_thumbnail_refused = date_now env0"
    "random36 env_thumbnail_refused = random36 env0"
    "iso_string env_thumbnail_refused = iso_string env0"
    "dir_name env_thumbnail_refused = dir_name env0"
    "path_join env_thumbnail_refused = path_join env0"
    "path_extname env_thumbnail_refused = path_extname env0"
    "path_basename env_thumbnail_refused = path_basename env0"
    "path_dirname env_thumbnail_refused = path_dirname env0"
    "parse_int env_thumbnail_refused = parse_int env0"
    "json_parse env_thumbnail_refused = json_parse env0"
    "sharp_new env_thumbnail_refused = sharp_new env0"
    "sharp_resize env_thumbnail_refused = sharp_resize env0"
    "sharp_jpeg env_thumbnail_refused = sharp_jpeg env0"
    "ffmpeg_run env_thumbnail_refused = ffmpeg_run env0"
    "public_url env_thumbnail_refused = public_url env0"
    "bucket_name env_thumbnail_refused = bucket_name env0"
    "account_id env_thumbnail_refused = account_id env0"
  by (simp_all add: env_thumbnail_refused_def)

lemmas run_simps =
  bindT_simps show_nat_numeral digit_char_def env0_sel env_transcode_fails_sel
  env_thumbnail_refused_sel world0_def clip_def photo_def memo_def request0_def
  now_def draw_def writeFile_def readFile_def unlink_def apply_writes_def
  uploadFile_def getPublicUrl_def generateKey_def split_pop_def text_truthy_def
  duration_value_def video_command_def processVideo_def processVideoFile_def
  processImage_def processImageFile_def image_data_of_def
  thumbnail_resize_def medium_resize_def large_resize_def
  batch_file_def isImage_def isVideo_def Let_def

lemmas run_congs =
  let_weak_cong bindT_weak_cong prod.case_cong_weak sum.case_cong_weak
  option.case_cong_weak list.case_cong_weak

section \<open>The batch loop\<close>












section \<open>Uploads\<close>








section \<open>Video pipeline\<close>





















text \<open>
  C1 fails on the code: \<open>cleanupTempFiles\<close> is the last statement of
  \<open>processVideoFile\<close> and of \<open>/process-video\<close>, outside any \<open>finally\<close>, so an
  exception on the way skips it. When the transcode throws, the input staging file is
  still there after the call; when the upload of the thumbnail throws, all three staging
  files are.
\<close>

theorem staging_files_left_after_failure:
  "fst (processVideoFile env_transcode_fails clip ''7'' world0) = Inl ''ffmpeg exited with code 1''
   \<and> fs_files (snd (processVideoFile env_transcode_fails clip ''7'' world0))
        ''/app/temp/input_1700..mp4'' = Some [0x00, 0x18]
   \<and> fst (processVideoFile env_thumbnail_refused clip ''7'' world0)
        = Inl ''Failed to upload file: AccessDenied''
   \<and> fs_files (snd (processVideoFile env_thumbnail_refused clip ''7'' world0))
        ''/app/temp/input_1700..mp4'' = Some [0x00, 0x18]
   \<and> fs_files (snd (processVideoFile env_thumbnail_refused clip ''7'' world0))
        ''/app/temp/output_1701.mp4'' = Some [0x66, 0x74]
   \<and> fs_files (snd (processVideoFile env_thumbnail_refused clip ''7'' world0))
        ''/app/temp/thumbnail_1702.jpg'' = Some [0xFF, 0xD8]
   \<and> fst (process_video env_transcode_fails (request0\<lparr>req_file := Some clip\<rparr>) world0)
        = Rejected 500 ''Failed to process video'' (Some ''ffmpeg exited with code 1'')
   \<and> fs_files (snd (process_video env_transcode_fails (request0\<lparr>req_file := Some clip\<rparr>) world0))
        ''/app/temp/input_1700..mp4'' = Some [0x00, 0x18]"
  by (simp add: run_simps process_video_def respond_def cong: run_congs)














section \<open>Image pipeline\<close>













section \<open>Batch route\<close>












end
